theory Spec2Isabelle
  imports Main "HOL-Library.Sublist"
begin

section \<open>The diskcache job queue of \<^verbatim>\<open>utilities/diskcache_backend.py\<close>\<close>

text \<open>
  The module keeps three process-wide dictionaries (\<^verbatim>\<open>_QUEUES\<close>, \<^verbatim>\<open>_WORKERS\<close>,
  \<^verbatim>\<open>_REGISTRIES\<close>) and mutable \<^verbatim>\<open>Job\<close> objects that are shared between a queue's
  \<^verbatim>\<open>_jobs\<close> dictionary, the list a worker iterates over and the callers of
  \<^verbatim>\<open>enqueue\<close>. The embedding therefore passes an explicit world around: a store of
  \<^verbatim>\<open>Job\<close> objects addressed by reference, the three dictionaries and a clock.
\<close>

subsection \<open>Values, statuses and jobs\<close>

text \<open>Python values as far as the queue looks at them: it only tests their truth value.\<close>

datatype pyval = PNone | PBool bool | PInt int | PStr string | PList "pyval list"

fun truthy :: "pyval \<Rightarrow> bool" where
  "truthy PNone = False"
| "truthy (PBool b) = b"
| "truthy (PInt i) = (i \<noteq> 0)"
| "truthy (PStr s) = (s \<noteq> [])"
| "truthy (PList vs) = (vs \<noteq> [])"

text \<open>\<^verbatim>\<open>class JobStatus\<close>: eight string constants (the \<^verbatim>\<open>STATUS_*\<close> aliases are the same strings).\<close>

datatype JobStatus = QUEUED | STARTED | FINISHED | FAILED | DEFERRED | SCHEDULED | STOPPED | CANCELED

fun status_str :: "JobStatus \<Rightarrow> string" where
  "status_str QUEUED = ''queued''"
| "status_str STARTED = ''started''"
| "status_str FINISHED = ''finished''"
| "status_str FAILED = ''failed''"
| "status_str DEFERRED = ''deferred''"
| "status_str SCHEDULED = ''scheduled''"
| "status_str STOPPED = ''stopped''"
| "status_str CANCELED = ''canceled''"

text \<open>
  The \<^verbatim>\<open>func\<close> attribute of a job: either a callable, named by a handle that the
  environment interprets, or any value for which \<^verbatim>\<open>callable(job.func)\<close> is false.
\<close>

datatype func = NotCallable | Callable nat

text \<open>
  \<^verbatim>\<open>class Job\<close>. Timestamps are readings of the clock. \<^verbatim>\<open>scheduled_at\<close> is an attribute
  that \<^verbatim>\<open>__init__\<close> does not create (\<open>None\<close> here means that it is absent). The
  attributes that no operation below reads or writes after construction
  (\<^verbatim>\<open>connection\<close>, \<^verbatim>\<open>func_name\<close>, \<^verbatim>\<open>description\<close>, \<^verbatim>\<open>serializer\<close>, \<^verbatim>\<open>timeout\<close>,
  \<^verbatim>\<open>result_ttl\<close>, \<^verbatim>\<open>worker_name\<close>, \<^verbatim>\<open>meta\<close>, \<^verbatim>\<open>last_heartbeat\<close>) are left out.
\<close>

record Job =
  job_id :: string
  origin :: string
  status :: JobStatus
  created_at :: nat
  enqueued_at :: "nat option"
  started_at :: "nat option"
  ended_at :: "nat option"
  result :: pyval
  exc_info :: "string option"
  func :: func
  args :: "pyval list"
  kwargs :: "(string \<times> pyval) list"
  scheduled_at :: "pyval option"

text \<open>
  \<^verbatim>\<open>Job.__init__(id, connection, origin, func)\<close>: \<^verbatim>\<open>id or uuid.uuid4().hex\<close>,
  \<^verbatim>\<open>origin or 'default'\<close>. The value that \<^verbatim>\<open>uuid4\<close> would return and the reading of
  \<^verbatim>\<open>datetime.now()\<close> are arguments.
\<close>

definition Job_init :: "string \<Rightarrow> nat \<Rightarrow> string option \<Rightarrow> string option \<Rightarrow> func \<Rightarrow> Job" where
  "Job_init uuid now i orig f =
     \<lparr> job_id = (case i of None \<Rightarrow> uuid | Some s \<Rightarrow> if s = [] then uuid else s),
       origin = (case orig of None \<Rightarrow> ''default'' | Some s \<Rightarrow> if s = [] then ''default'' else s),
       status = QUEUED,
       created_at = now,
       enqueued_at = None,
       started_at = None,
       ended_at = None,
       result = PNone,
       exc_info = None,
       func = f,
       args = [],
       kwargs = [],
       scheduled_at = None \<rparr>"

text \<open>
  \<^verbatim>\<open>Job.set_status(status, persist=True)\<close>. The \<^verbatim>\<open>persist\<close> flag is not used by the
  body, so it is not a parameter here. There is no test of the current status.
\<close>

definition set_status :: "JobStatus \<Rightarrow> nat \<Rightarrow> Job \<Rightarrow> Job" where
  "set_status s now j =
     (if s = QUEUED then j\<lparr>status := s, enqueued_at := Some now\<rparr>
      else if s = STARTED then j\<lparr>status := s, started_at := Some now\<rparr>
      else if s = FINISHED \<or> s = FAILED \<or> s = STOPPED \<or> s = CANCELED
        then j\<lparr>status := s, ended_at := Some now\<rparr>
      else j\<lparr>status := s\<rparr>)"

definition get_status :: "Job \<Rightarrow> JobStatus" where
  "get_status j = status j"

definition is_failed :: "Job \<Rightarrow> bool" where
  "is_failed j = (status j = FAILED)"

definition is_finished :: "Job \<Rightarrow> bool" where
  "is_finished j = (status j = FINISHED)"

subsection \<open>Queues, registries, workers and the world\<close>

text \<open>
  \<^verbatim>\<open>class Queue\<close>: \<^verbatim>\<open>_jobs\<close> is a dictionary from job id to \<^verbatim>\<open>Job\<close> object (an
  association list of ids and references, updated as a dictionary is), \<^verbatim>\<open>_deque\<close>
  is the persistent list of ids. \<^verbatim>\<open>get_queue\<close> keeps one \<^verbatim>\<open>Queue\<close> per name, so queues
  are addressed by name and a queue that was never asked for is the queue with no jobs.
\<close>

record Queue =
  q_jobs :: "(string \<times> nat) list"
  q_deque :: "string list"

datatype registry_type =
    FailedJobRegistry | StartedJobRegistry | FinishedJobRegistry
  | DeferredJobRegistry | ScheduledJobRegistry | CanceledJobRegistry

text \<open>\<^verbatim>\<open>class Worker\<close>: the list of its queues and its name.\<close>

record Worker =
  queues :: "string list"
  worker_name :: string

text \<open>
  The world. \<^verbatim>\<open>_REGISTRIES\<close> maps the key \<^verbatim>\<open>'<registry class>:<queue name>'\<close> to an
  index of job ids; an index that was never created has no ids, as the one that
  \<^verbatim>\<open>BaseRegistry.__init__\<close> creates on first use. An index is the list of its keys.
\<close>

record world =
  heap :: "nat \<Rightarrow> Job"
  next_ref :: nat
  QUEUES :: "string \<Rightarrow> Queue"
  REGISTRIES :: "registry_type \<times> string \<Rightarrow> string list"
  WORKERS :: "(string \<times> Worker) list"
  clock :: nat

text \<open>\<^verbatim>\<open>datetime.now()\<close>: read the clock; time moves on.\<close>

definition datetime_now :: "world \<Rightarrow> nat \<times> world" where
  "datetime_now w = (clock w, w\<lparr>clock := Suc (clock w)\<rparr>)"

text \<open>Creating an object: the next free reference.\<close>

definition new_job :: "Job \<Rightarrow> world \<Rightarrow> nat \<times> world" where
  "new_job j w = (next_ref w, w\<lparr>heap := (heap w)(next_ref w := j), next_ref := Suc (next_ref w)\<rparr>)"

definition update_job :: "nat \<Rightarrow> (Job \<Rightarrow> Job) \<Rightarrow> world \<Rightarrow> world" where
  "update_job r f w = w\<lparr>heap := (heap w)(r := f (heap w r))\<rparr>"

text \<open>\<^verbatim>\<open>job.set_status(status)\<close> on the object at a reference: it reads the clock first.\<close>

definition job_set_status :: "nat \<Rightarrow> JobStatus \<Rightarrow> world \<Rightarrow> world" where
  "job_set_status r s w = (case datetime_now w of (now, w1) \<Rightarrow> update_job r (set_status s now) w1)"

subsection \<open>Registries\<close>

text \<open>\<^verbatim>\<open>BaseRegistry.add\<close>, \<^verbatim>\<open>remove\<close>, \<^verbatim>\<open>__len__\<close>, \<^verbatim>\<open>__contains__\<close>, \<^verbatim>\<open>get_job_ids\<close>.\<close>

definition index_add :: "string \<Rightarrow> string list \<Rightarrow> string list" where
  "index_add i ix = (if i \<in> set ix then ix else ix @ [i])"

definition registry_add :: "registry_type \<Rightarrow> string \<Rightarrow> string \<Rightarrow> world \<Rightarrow> world" where
  "registry_add t qn i w = w\<lparr>REGISTRIES := (REGISTRIES w)((t, qn) := index_add i (REGISTRIES w (t, qn)))\<rparr>"

definition registry_remove :: "registry_type \<Rightarrow> string \<Rightarrow> string \<Rightarrow> world \<Rightarrow> world" where
  "registry_remove t qn i w =
     (if i \<in> set (REGISTRIES w (t, qn))
      then w\<lparr>REGISTRIES := (REGISTRIES w)((t, qn) := removeAll i (REGISTRIES w (t, qn)))\<rparr>
      else w)"

definition registry_len :: "registry_type \<Rightarrow> string \<Rightarrow> world \<Rightarrow> nat" where
  "registry_len t qn w = length (REGISTRIES w (t, qn))"

definition registry_contains :: "registry_type \<Rightarrow> string \<Rightarrow> string \<Rightarrow> world \<Rightarrow> bool" where
  "registry_contains t qn i w = (i \<in> set (REGISTRIES w (t, qn)))"

definition get_job_ids :: "registry_type \<Rightarrow> string \<Rightarrow> world \<Rightarrow> string list" where
  "get_job_ids t qn w = REGISTRIES w (t, qn)"

subsection \<open>Queue operations\<close>

text \<open>A dictionary assignment \<^verbatim>\<open>d[k] = v\<close> on an association list.\<close>

fun dict_set :: "'k \<Rightarrow> 'v \<Rightarrow> ('k \<times> 'v) list \<Rightarrow> ('k \<times> 'v) list" where
  "dict_set k v [] = [(k, v)]"
| "dict_set k v (p # ps) = (if fst p = k then (k, v) # ps else p # dict_set k v ps)"

text \<open>\<^verbatim>\<open>Queue.jobs\<close>: the comprehension over \<^verbatim>\<open>_deque\<close>, keeping the ids that \<^verbatim>\<open>_jobs\<close> has.\<close>

definition jobs :: "Queue \<Rightarrow> nat list" where
  "jobs q = List.map_filter (map_of (q_jobs q)) (q_deque q)"

definition count :: "Queue \<Rightarrow> nat" where
  "count q = length (q_jobs q)"

definition fetch_job :: "Queue \<Rightarrow> string \<Rightarrow> nat option" where
  "fetch_job q i = map_of (q_jobs q) i"

definition job_ids :: "Queue \<Rightarrow> string list" where
  "job_ids q = map fst (q_jobs q)"

definition empty_queue :: "string \<Rightarrow> world \<Rightarrow> world" where
  "empty_queue qn w = w\<lparr>QUEUES := (QUEUES w)(qn := \<lparr>q_jobs = [], q_deque = []\<rparr>)\<rparr>"

text \<open>\<^verbatim>\<open>kwargs.pop('job_id', None) or uuid.uuid4().hex\<close>.\<close>

definition job_id_or_uuid :: "string option \<Rightarrow> string \<Rightarrow> string" where
  "job_id_or_uuid jid uuid = (case jid of None \<Rightarrow> uuid | Some s \<Rightarrow> if s = [] then uuid else s)"

text \<open>\<^verbatim>\<open>DEFERRED if depends_on else QUEUED\<close>, with \<^verbatim>\<open>depends_on\<close> defaulting to \<^verbatim>\<open>None\<close>.\<close>

definition initial_status :: "pyval option \<Rightarrow> JobStatus" where
  "initial_status depends_on =
     (case depends_on of None \<Rightarrow> QUEUED | Some v \<Rightarrow> if truthy v then DEFERRED else QUEUED)"

text \<open>
  \<^verbatim>\<open>Queue.enqueue(func, *args, **kwargs)\<close> on the queue named \<open>qn\<close>. The keyword
  arguments \<^verbatim>\<open>depends_on\<close> and \<^verbatim>\<open>job_id\<close>, which the method pops from \<^verbatim>\<open>kwargs\<close>, are
  arguments of their own (\<open>None\<close> when not given); \<open>kws\<close> is what is left. The first
  argument is the value \<^verbatim>\<open>uuid4().hex\<close> returns when asked. The result is the \<^verbatim>\<open>Job\<close>
  object, as a reference.
\<close>

definition enqueue ::
  "string \<Rightarrow> string \<Rightarrow> func \<Rightarrow> pyval list \<Rightarrow> (string \<times> pyval) list \<Rightarrow> pyval option \<Rightarrow> string option
     \<Rightarrow> world \<Rightarrow> nat \<times> world" where
  "enqueue uuid qn f as kws depends_on jid w =
     (case datetime_now w of (created, w1) \<Rightarrow>
      case new_job (Job_init uuid created (Some (job_id_or_uuid jid uuid)) (Some qn) f) w1 of (r, w2) \<Rightarrow>
      let w3 = update_job r (\<lambda>j. j\<lparr>args := as, kwargs := kws\<rparr>) w2;
          w4 = job_set_status r (initial_status depends_on) w3;
          i = job_id (heap w4 r);
          q = QUEUES w4 qn;
          w5 = w4\<lparr>QUEUES := (QUEUES w4)(qn := \<lparr>q_jobs = dict_set i r (q_jobs q), q_deque = q_deque q @ [i]\<rparr>)\<rparr>
      in (r, w5))"

text \<open>\<^verbatim>\<open>Queue.enqueue_at(schedule_at, func, *args, **kwargs)\<close>.\<close>

definition enqueue_at ::
  "string \<Rightarrow> string \<Rightarrow> pyval \<Rightarrow> func \<Rightarrow> pyval list \<Rightarrow> (string \<times> pyval) list \<Rightarrow> pyval option \<Rightarrow> string option
     \<Rightarrow> world \<Rightarrow> nat \<times> world" where
  "enqueue_at uuid qn schedule_at f as kws depends_on jid w =
     (case enqueue uuid qn f as kws depends_on jid w of (r, w1) \<Rightarrow>
      let w2 = update_job r (\<lambda>j. j\<lparr>scheduled_at := Some schedule_at\<rparr>) w1;
          w3 = registry_add ScheduledJobRegistry qn (job_id (heap w2 r)) w2
      in (r, w3))"

subsection \<open>Workers\<close>

text \<open>
  The calls of \<^verbatim>\<open>logger\<close> write to the log only and are left out of every operation;
  the one that can do more, the formatting of the exception in the handler of
  \<^verbatim>\<open>Worker.work\<close>, is part of the way a call ends, below.
\<close>

text \<open>
  What a call \<^verbatim>\<open>job.func(*job.args, **job.kwargs)\<close> does is not in this module: the
  environment \<open>env\<close> gives, for a handle, the arguments and the world at the call, the
  way the call ends and the world it leaves (a target may enqueue jobs, empty queues or
  write to any object). A call ends by returning a value, by raising an exception that
  \<^verbatim>\<open>except Exception\<close> handles and that has a text \<^verbatim>\<open>str(e)\<close>, or by raising one that
  leaves \<^verbatim>\<open>work\<close> (\<open>RaisedBase\<close>, with the name of what is raised to the caller): an
  exception that is not an \<^verbatim>\<open>Exception\<close> (\<^verbatim>\<open>SystemExit\<close>, \<^verbatim>\<open>KeyboardInterrupt\<close>), which
  the handler does not catch, or an \<^verbatim>\<open>Exception\<close> whose \<^verbatim>\<open>__str__\<close> raises, which leaves
  the handler where \<^verbatim>\<open>logger.error\<close> formats it, before anything is written to the job.
\<close>

datatype outcome = Returned pyval | RaisedException string | RaisedBase string

type_synonym env = "nat \<Rightarrow> pyval list \<Rightarrow> (string \<times> pyval) list \<Rightarrow> world \<Rightarrow> outcome \<times> world"

text \<open>
  What a drain leaves: the world, the \<^verbatim>\<open>Job\<close> objects whose target was called, in the
  order of the calls, and the exception that left \<^verbatim>\<open>work\<close>, if one did.
\<close>

record drain =
  world_after :: world
  calls :: "nat list"
  raised :: "string option"

text \<open>
  The body of the inner loop of \<^verbatim>\<open>Worker.work\<close> for one \<^verbatim>\<open>job\<close>: the \<^verbatim>\<open>try\<close> block
  with \<^verbatim>\<open>if callable(job.func)\<close>, the assignment of \<^verbatim>\<open>job.result\<close>,
  \<^verbatim>\<open>set_status(FINISHED)\<close>, and the handler with \<^verbatim>\<open>job.exc_info = str(e)\<close> and
  \<^verbatim>\<open>set_status(FAILED)\<close>.
\<close>

definition run_job :: "env \<Rightarrow> nat \<Rightarrow> world \<Rightarrow> drain" where
  "run_job env r w =
     (case func (heap w r) of
        NotCallable \<Rightarrow> \<lparr>world_after = job_set_status r FINISHED w, calls = [], raised = None\<rparr>
      | Callable f \<Rightarrow>
          (case env f (args (heap w r)) (kwargs (heap w r)) w of
             (Returned v, w1) \<Rightarrow>
               \<lparr>world_after = job_set_status r FINISHED (update_job r (\<lambda>j. j\<lparr>result := v\<rparr>) w1),
                calls = [r], raised = None\<rparr>
           | (RaisedException e, w1) \<Rightarrow>
               \<lparr>world_after = job_set_status r FAILED (update_job r (\<lambda>j. j\<lparr>exc_info := Some e\<rparr>) w1),
                calls = [r], raised = None\<rparr>
           | (RaisedBase e, w1) \<Rightarrow>
               \<lparr>world_after = w1, calls = [r], raised = Some e\<rparr>))"

text \<open>\<^verbatim>\<open>for job in list(queue.jobs)\<close>, over the list that was built at the loop's entry.\<close>

fun process_jobs :: "env \<Rightarrow> nat list \<Rightarrow> world \<Rightarrow> drain" where
  "process_jobs env [] w = \<lparr>world_after = w, calls = [], raised = None\<rparr>"
| "process_jobs env (r # rs) w =
     (let d = run_job env r w in
      case raised d of
        Some e \<Rightarrow> d
      | None \<Rightarrow> (let d' = process_jobs env rs (world_after d) in d'\<lparr>calls := calls d @ calls d'\<rparr>))"

definition work_queue :: "env \<Rightarrow> string \<Rightarrow> world \<Rightarrow> drain" where
  "work_queue env qn w = process_jobs env (jobs (QUEUES w qn)) w"

text \<open>\<^verbatim>\<open>for queue in self.queues\<close>.\<close>

fun work_queues :: "env \<Rightarrow> string list \<Rightarrow> world \<Rightarrow> drain" where
  "work_queues env [] w = \<lparr>world_after = w, calls = [], raised = None\<rparr>"
| "work_queues env (qn # qns) w =
     (let d = work_queue env qn w in
      case raised d of
        Some e \<Rightarrow> d
      | None \<Rightarrow> (let d' = work_queues env qns (world_after d) in d'\<lparr>calls := calls d @ calls d'\<rparr>))"

text \<open>\<^verbatim>\<open>Worker.work(**kwargs)\<close>, with the truth value of \<^verbatim>\<open>kwargs.get('burst', False)\<close>.\<close>

definition work :: "env \<Rightarrow> Worker \<Rightarrow> bool \<Rightarrow> world \<Rightarrow> drain" where
  "work env wk burst w =
     (if \<not> burst then \<lparr>world_after = w, calls = [], raised = None\<rparr>
      else work_queues env (queues wk) w)"

text \<open>\<^verbatim>\<open>Worker.__init__(queues, name)\<close> and \<^verbatim>\<open>get_worker(queue_name, name)\<close>.\<close>

definition Worker_init :: "string \<Rightarrow> string list \<Rightarrow> string option \<Rightarrow> world \<Rightarrow> Worker \<times> world" where
  "Worker_init uuid qs nm w =
     (let n = (case nm of None \<Rightarrow> uuid | Some s \<Rightarrow> if s = [] then uuid else s);
          wk = \<lparr>queues = qs, worker_name = n\<rparr>
      in (wk, w\<lparr>WORKERS := dict_set (''rq:worker:'' @ n) wk (WORKERS w)\<rparr>))"

definition get_worker :: "string \<Rightarrow> string \<Rightarrow> string option \<Rightarrow> world \<Rightarrow> Worker \<times> world" where
  "get_worker uuid queue_name nm w =
     (let n = (case nm of None \<Rightarrow> queue_name | Some s \<Rightarrow> if s = [] then queue_name else s)
      in case map_of (WORKERS w) (''rq:worker:'' @ n) of
           None \<Rightarrow>
             (case Worker_init uuid [queue_name] (Some n) w of (wk, w1) \<Rightarrow>
                (wk, w1\<lparr>WORKERS := dict_set (''rq:worker:'' @ n) wk (WORKERS w1)\<rparr>))
         | Some wk \<Rightarrow> (wk, w))"

definition Worker_count :: "world \<Rightarrow> nat" where
  "Worker_count w = length (WORKERS w)"

text \<open>\<^verbatim>\<open>Worker.prepare_job_execution(job)\<close> and \<^verbatim>\<open>Worker.monitor_work_horse(job, queue)\<close>.\<close>

definition prepare_job_execution :: "nat \<Rightarrow> world \<Rightarrow> world" where
  "prepare_job_execution r w =
     (let w1 = job_set_status r STARTED w
      in registry_add StartedJobRegistry (origin (heap w1 r)) (job_id (heap w1 r)) w1)"

definition monitor_work_horse :: "nat \<Rightarrow> string \<Rightarrow> world \<Rightarrow> world" where
  "monitor_work_horse r qn w =
     (let w1 = job_set_status r FAILED w;
          w2 = registry_remove StartedJobRegistry qn (job_id (heap w1 r)) w1
      in registry_add FailedJobRegistry qn (job_id (heap w2 r)) w2)"

subsection \<open>Statistics\<close>

text \<open>
  \<^verbatim>\<open>_get_queue_statistics(queue_name, queue_index)\<close> and \<^verbatim>\<open>get_statistics()\<close> of
  \<^verbatim>\<open>django_rq/utils.py\<close>, with \<^verbatim>\<open>QUEUES_LIST\<close> and \<^verbatim>\<open>QUEUES_MAP\<close> of
  \<^verbatim>\<open>django_rq/settings.py\<close>. The fields are the keys of the dictionaries; the keys
  \<^verbatim>\<open>oldest_job_timestamp\<close> and \<^verbatim>\<open>scheduler_pid\<close>, always the empty string, are left out.
\<close>

record queue_statistics =
  st_name :: string
  st_jobs :: nat
  st_index :: nat
  st_workers :: nat
  finished_jobs :: nat
  failed_jobs :: nat
  started_jobs :: nat
  deferred_jobs :: nat
  scheduled_jobs :: nat
  canceled_jobs :: nat

record statistics =
  stat_workers :: nat
  stat_queues :: "queue_statistics list"
  stat_jobs :: nat

definition get_queue_statistics :: "string \<Rightarrow> nat \<Rightarrow> world \<Rightarrow> queue_statistics" where
  "get_queue_statistics queue_name queue_index w =
     \<lparr> st_name = queue_name,
       st_jobs = count (QUEUES w queue_name),
       st_index = queue_index,
       st_workers = 0,
       finished_jobs = registry_len FinishedJobRegistry queue_name w,
       failed_jobs = registry_len FailedJobRegistry queue_name w,
       started_jobs = registry_len StartedJobRegistry queue_name w,
       deferred_jobs = registry_len DeferredJobRegistry queue_name w,
       scheduled_jobs = registry_len ScheduledJobRegistry queue_name w,
       canceled_jobs = registry_len CanceledJobRegistry queue_name w \<rparr>"

definition QUEUES_LIST :: "string list" where
  "QUEUES_LIST = [''default'', ''high'', ''low'']"

definition QUEUES_MAP :: "(string \<times> nat) list" where
  "QUEUES_MAP = [(''default'', 0), (''high'', 1), (''low'', 2)]"

definition get_statistics :: "world \<Rightarrow> statistics" where
  "get_statistics w =
     (let queues_data =
            map (\<lambda>(i, n). get_queue_statistics n (case map_of QUEUES_MAP n of None \<Rightarrow> i | Some k \<Rightarrow> k) w)
                (enumerate 0 QUEUES_LIST)
      in \<lparr> stat_workers = 1, stat_queues = queues_data, stat_jobs = sum_list (map st_jobs queues_data) \<rparr>)"

subsection \<open>Concrete worlds\<close>

text \<open>The world of a fresh process with an empty cache directory.\<close>

definition world0 :: world where
  "world0 =
     \<lparr> heap = (\<lambda>_. Job_init [] 0 None None NotCallable),
       next_ref = 0,
       QUEUES = (\<lambda>_. \<lparr>q_jobs = [], q_deque = []\<rparr>),
       REGISTRIES = (\<lambda>_. []),
       WORKERS = [],
       clock = 0 \<rparr>"

text \<open>
  Three targets: handle 1 returns 1, handle 2 raises \<^verbatim>\<open>ValueError('boom')\<close>, any other
  handle returns 3; none touches the world.
\<close>

definition env3 :: env where
  "env3 f as kws w =
     (if f = 1 then (Returned (PInt 1), w)
      else if f = 2 then (RaisedException ''boom'', w)
      else (Returned (PInt 3), w))"

text \<open>
  The same targets, but handle 2 calls \<^verbatim>\<open>sys.exit('bye')\<close>, which raises
  \<^verbatim>\<open>SystemExit\<close>.
\<close>

definition env_exit :: env where
  "env_exit f as kws w =
     (if f = 1 then (Returned (PInt 1), w)
      else if f = 2 then (RaisedBase ''bye'', w)
      else (Returned (PInt 3), w))"

text \<open>A worker for the queue \<^verbatim>\<open>default\<close>, as \<^verbatim>\<open>get_worker()\<close> makes it in a fresh process.\<close>

definition default_worker :: Worker where
  "default_worker = fst (get_worker ''u0'' ''default'' None world0)"

definition world_w :: world where
  "world_w = snd (get_worker ''u0'' ''default'' None world0)"

text \<open>Three jobs on the queue \<^verbatim>\<open>default\<close> with the three targets, and the drain.\<close>

definition world3 :: world where
  "world3 =
     (case enqueue ''u1'' ''default'' (Callable 1) [] [] None (Some ''j1'') world_w of (r1, w1) \<Rightarrow>
      case enqueue ''u2'' ''default'' (Callable 2) [] [] None (Some ''j2'') w1 of (r2, w2) \<Rightarrow>
      case enqueue ''u3'' ''default'' (Callable 3) [] [] None (Some ''j3'') w2 of (r3, w3) \<Rightarrow> w3)"

definition drained3 :: world where
  "drained3 = world_after (work env3 default_worker True world3)"

text \<open>
  A target that reports what it sees when it runs: the status of the job \<^verbatim>\<open>j1\<close> of the
  queue \<^verbatim>\<open>default\<close> and whether the Started Registry of that queue has the id.
\<close>

definition env_probe :: env where
  "env_probe f as kws w =
     (Returned (PList
        [PStr (case fetch_job (QUEUES w ''default'') ''j1'' of
                 None \<Rightarrow> ''missing''
               | Some r \<Rightarrow> status_str (status (heap w r))),
         PBool (registry_contains StartedJobRegistry ''default'' ''j1'' w)]), w)"

definition world_probe :: world where
  "world_probe = snd (enqueue ''u1'' ''default'' (Callable 0) [] [] None (Some ''j1'') world_w)"

definition drained_probe :: world where
  "drained_probe = world_after (work env_probe default_worker True world_probe)"

text \<open>A job that finished with result 1 at time 5.\<close>

definition finished_job :: Job where
  "finished_job =
     set_status FINISHED 5 ((Job_init ''u1'' 0 (Some ''j1'') (Some ''default'') (Callable 1))\<lparr>result := PInt 1\<rparr>)"

text \<open>A queue whose only job has a target that is not callable.\<close>

definition world_nc :: world where
  "world_nc = snd (enqueue ''u1'' ''default'' NotCallable [] [] None (Some ''j1'') world_w)"




section \<open>Basic facts\<close>

lemmas eval_defs =
  enqueue_def enqueue_at_def world0_def world_w_def default_worker_def datetime_now_def new_job_def
  update_job_def job_set_status_def Job_init_def job_id_or_uuid_def initial_status_def set_status_def
  get_worker_def Worker_init_def jobs_def List.map_filter_def Let_def work_def work_queue_def
  run_job_def registry_add_def registry_remove_def registry_len_def registry_contains_def
  get_job_ids_def index_add_def fetch_job_def count_def

lemma set_status_status: "status (set_status s now j) = s"
  by (simp add: set_status_def)

lemma set_status_other:
  "job_id (set_status s now j) = job_id j"
  "origin (set_status s now j) = origin j"
  "created_at (set_status s now j) = created_at j"
  "result (set_status s now j) = result j"
  "exc_info (set_status s now j) = exc_info j"
  "func (set_status s now j) = func j"
  "args (set_status s now j) = args j"
  "kwargs (set_status s now j) = kwargs j"
  "scheduled_at (set_status s now j) = scheduled_at j"
  by (simp_all add: set_status_def)


lemma job_set_status_world:
  "QUEUES (job_set_status r s w) = QUEUES w"
  "REGISTRIES (job_set_status r s w) = REGISTRIES w"
  "WORKERS (job_set_status r s w) = WORKERS w"
  "next_ref (job_set_status r s w) = next_ref w"
  "clock (job_set_status r s w) = Suc (clock w)"
  "heap (job_set_status r s w) = (heap w)(r := set_status s (clock w) (heap w r))"
  by (simp_all add: job_set_status_def datetime_now_def update_job_def)

lemma update_job_world:
  "QUEUES (update_job r g w) = QUEUES w"
  "REGISTRIES (update_job r g w) = REGISTRIES w"
  "WORKERS (update_job r g w) = WORKERS w"
  "next_ref (update_job r g w) = next_ref w"
  "clock (update_job r g w) = clock w"
  "heap (update_job r g w) = (heap w)(r := g (heap w r))"
  by (simp_all add: update_job_def)

lemma map_of_dict_set: "map_of (dict_set k v ps) = (map_of ps)(k \<mapsto> v)"
  by (induction ps) auto

lemma dict_set_keys: "set (map fst (dict_set k v ps)) = insert k (set (map fst ps))"
  by (induction ps) auto

lemma distinct_dict_set: "distinct (map fst ps) \<Longrightarrow> distinct (map fst (dict_set k v ps))"
proof (induction ps)
  case Nil
  show ?case by simp
next
  case (Cons p ps)
  have "set (map fst (dict_set k v ps)) = insert k (set (map fst ps))"
    by (rule dict_set_keys)
  with Cons show ?case by auto
qed

section \<open>The status of a job and \<^verbatim>\<open>set_status\<close>\<close>

text \<open>
  C4, as the code has it. \<^verbatim>\<open>set_status\<close> makes no test of the current status: on any
  job, terminal or not, it records the requested status and stamps \<^verbatim>\<open>enqueued_at\<close> for
  QUEUED, \<^verbatim>\<open>started_at\<close> for STARTED and \<^verbatim>\<open>ended_at\<close> for the four terminal statuses.
  It leaves every other timestamp and the result, the error text, the id, the origin,
  the target and the call payload of the job as they were.
\<close>

theorem set_status_unguarded:
  "status (set_status s now j) = s
   \<and> enqueued_at (set_status s now j) = (if s = QUEUED then Some now else enqueued_at j)
   \<and> started_at (set_status s now j) = (if s = STARTED then Some now else started_at j)
   \<and> ended_at (set_status s now j) =
       (if s \<in> {FINISHED, FAILED, STOPPED, CANCELED} then Some now else ended_at j)
   \<and> created_at (set_status s now j) = created_at j
   \<and> result (set_status s now j) = result j
   \<and> exc_info (set_status s now j) = exc_info j
   \<and> job_id (set_status s now j) = job_id j
   \<and> origin (set_status s now j) = origin j
   \<and> func (set_status s now j) = func j
   \<and> args (set_status s now j) = args j
   \<and> kwargs (set_status s now j) = kwargs j"
  by (simp add: set_status_def)

text \<open>
  C4, as the claim states it, fails: a job that finished with result 1 is put back to
  QUEUED by \<^verbatim>\<open>set_status('queued')\<close>, which is what \<^verbatim>\<open>requeue_rq_job\<close> of
  \<^verbatim>\<open>core/utils.py\<close> calls on any job it finds, and gets a new \<^verbatim>\<open>enqueued_at\<close>.
\<close>

theorem set_status_on_finished_job:
  "status finished_job = FINISHED
   \<and> status (set_status QUEUED 9 finished_job) \<noteq> status finished_job
   \<and> enqueued_at (set_status QUEUED 9 finished_job) \<noteq> enqueued_at finished_job"
  by (simp add: finished_job_def set_status_def Job_init_def)

section \<open>Enqueueing\<close>

lemma enqueue_ref: "fst (enqueue uuid qn f as kws dep jid w) = next_ref w"
  by (simp add: enqueue_def datetime_now_def new_job_def Let_def split: prod.splits)

lemma Job_init_id: "job_id (Job_init uuid now (Some (job_id_or_uuid jid uuid)) orig f) = job_id_or_uuid jid uuid"
  by (simp add: Job_init_def job_id_or_uuid_def split: option.splits)

lemma enqueue_job:
  "heap (snd (enqueue uuid qn f as kws dep jid w)) =
     (heap w)(next_ref w :=
        set_status (initial_status dep) (Suc (clock w))
          ((Job_init uuid (clock w) (Some (job_id_or_uuid jid uuid)) (Some qn) f)\<lparr>args := as, kwargs := kws\<rparr>))"
  by (simp add: enqueue_def datetime_now_def new_job_def update_job_def job_set_status_def Let_def)

lemma enqueue_job_id:
  "job_id (heap (snd (enqueue uuid qn f as kws dep jid w)) (next_ref w)) = job_id_or_uuid jid uuid"
  by (simp add: enqueue_job set_status_other Job_init_id)

lemma enqueue_QUEUES:
  "QUEUES (snd (enqueue uuid qn f as kws dep jid w)) =
     (QUEUES w)(qn := \<lparr>q_jobs = dict_set (job_id_or_uuid jid uuid) (next_ref w) (q_jobs (QUEUES w qn)),
                        q_deque = q_deque (QUEUES w qn) @ [job_id_or_uuid jid uuid]\<rparr>)"
proof -
  have "job_id (set_status (initial_status dep) (Suc (clock w))
          ((Job_init uuid (clock w) (Some (job_id_or_uuid jid uuid)) (Some qn) f)\<lparr>args := as, kwargs := kws\<rparr>))
        = job_id_or_uuid jid uuid"
    by (simp add: set_status_other Job_init_id)
  then show ?thesis
    by (simp add: enqueue_def datetime_now_def new_job_def update_job_def job_set_status_def Let_def)
qed

lemma enqueue_world:
  "REGISTRIES (snd (enqueue uuid qn f as kws dep jid w)) = REGISTRIES w"
  "WORKERS (snd (enqueue uuid qn f as kws dep jid w)) = WORKERS w"
  "next_ref (snd (enqueue uuid qn f as kws dep jid w)) = Suc (next_ref w)"
  by (simp_all add: enqueue_def datetime_now_def new_job_def update_job_def job_set_status_def Let_def)

lemma enqueue_status:
  "status (heap (snd (enqueue uuid qn f as kws dep jid w)) (fst (enqueue uuid qn f as kws dep jid w)))
     = initial_status dep"
  by (simp add: enqueue_ref enqueue_job set_status_status)

lemma initial_status_cases: "initial_status dep = QUEUED \<or> initial_status dep = DEFERRED"
  by (simp add: initial_status_def split: option.splits)

lemma enqueue_at_status:
  "status (heap (snd (enqueue_at uuid qn t f as kws dep jid w)) (fst (enqueue_at uuid qn t f as kws dep jid w)))
     = initial_status dep"
proof -
  obtain r w1 where e: "enqueue uuid qn f as kws dep jid w = (r, w1)"
    by (cases "enqueue uuid qn f as kws dep jid w")
  have "status (heap w1 r) = initial_status dep"
    using enqueue_status [of uuid qn f as kws dep jid w] e by simp
  then show ?thesis
    by (simp add: enqueue_at_def e Let_def registry_add_def update_job_def)
qed

lemma enqueue_at_registry:
  "registry_contains ScheduledJobRegistry qn
     (job_id (heap (snd (enqueue_at uuid qn t f as kws dep jid w)) (fst (enqueue_at uuid qn t f as kws dep jid w))))
     (snd (enqueue_at uuid qn t f as kws dep jid w))"
  by (simp add: enqueue_at_def Let_def registry_add_def registry_contains_def update_job_def index_add_def
      split: prod.splits)

text \<open>
  C3 at a job scheduled on the queue \<^verbatim>\<open>default\<close> of a fresh process: \<^verbatim>\<open>enqueue_at\<close> puts
  the id into the Scheduled Registry and records \<^verbatim>\<open>scheduled_at\<close>, but the status it
  returns is the one \<^verbatim>\<open>enqueue\<close> gave, QUEUED, not SCHEDULED.
\<close>

theorem enqueue_at_leaves_status_queued:
  "status (heap (snd (enqueue_at ''u1'' ''default'' (PInt 1700000000) (Callable 1) [] [] None None world0))
                (fst (enqueue_at ''u1'' ''default'' (PInt 1700000000) (Callable 1) [] [] None None world0)))
     = QUEUED
   \<and> get_job_ids ScheduledJobRegistry ''default''
       (snd (enqueue_at ''u1'' ''default'' (PInt 1700000000) (Callable 1) [] [] None None world0)) = [''u1'']
   \<and> status (heap (snd (enqueue ''u1'' ''default'' (Callable 1) [] [] None None world0))
                  (fst (enqueue ''u1'' ''default'' (Callable 1) [] [] None None world0))) = QUEUED
   \<and> status (heap (snd (enqueue ''u1'' ''default'' (Callable 1) [] [] (Some (PStr ''j0'')) None world0))
                  (fst (enqueue ''u1'' ''default'' (Callable 1) [] [] (Some (PStr ''j0'')) None world0))) = DEFERRED"
  by (simp add: eval_defs)


section \<open>One job of a drain\<close>

lemma run_job_not_callable:
  "func (heap w r) = NotCallable \<Longrightarrow>
     run_job env r w = \<lparr>world_after = job_set_status r FINISHED w, calls = [], raised = None\<rparr>"
  by (simp add: run_job_def)

lemma run_job_returned:
  "func (heap w r) = Callable f \<Longrightarrow> env f (args (heap w r)) (kwargs (heap w r)) w = (Returned v, w1) \<Longrightarrow>
     run_job env r w =
       \<lparr>world_after = job_set_status r FINISHED (update_job r (\<lambda>j. j\<lparr>result := v\<rparr>) w1),
        calls = [r], raised = None\<rparr>"
  by (simp add: run_job_def)

lemma run_job_raised:
  "func (heap w r) = Callable f \<Longrightarrow> env f (args (heap w r)) (kwargs (heap w r)) w = (RaisedException e, w1) \<Longrightarrow>
     run_job env r w =
       \<lparr>world_after = job_set_status r FAILED (update_job r (\<lambda>j. j\<lparr>exc_info := Some e\<rparr>) w1),
        calls = [r], raised = None\<rparr>"
  by (simp add: run_job_def)

lemma run_job_base:
  "func (heap w r) = Callable f \<Longrightarrow> env f (args (heap w r)) (kwargs (heap w r)) w = (RaisedBase e, w1) \<Longrightarrow>
     run_job env r w = \<lparr>world_after = w1, calls = [r], raised = Some e\<rparr>"
  by (simp add: run_job_def)


text \<open>
  The worker writes nothing to the registries: what a registry holds after a job ran is
  what the job's target left there.
\<close>

lemma run_job_REGISTRIES:
  assumes "\<And>f as kws w0. REGISTRIES (snd (env f as kws w0)) = REGISTRIES w0"
  shows "REGISTRIES (world_after (run_job env r w)) = REGISTRIES w"
proof (cases "func (heap w r)")
  case NotCallable
  then show ?thesis by (simp add: run_job_def job_set_status_world)
next
  case (Callable f)
  obtain out w1 where e: "env f (args (heap w r)) (kwargs (heap w r)) w = (out, w1)"
    by (cases "env f (args (heap w r)) (kwargs (heap w r)) w")
  have "REGISTRIES w1 = REGISTRIES w"
    using assms [of f "args (heap w r)" "kwargs (heap w r)" w] e by simp
  with Callable e show ?thesis
    by (cases out) (simp_all add: run_job_def job_set_status_world update_job_world)
qed

lemma process_jobs_REGISTRIES:
  assumes "\<And>f as kws w0. REGISTRIES (snd (env f as kws w0)) = REGISTRIES w0"
  shows "REGISTRIES (world_after (process_jobs env rs w)) = REGISTRIES w"
proof (induction rs arbitrary: w)
  case Nil
  show ?case by simp
next
  case (Cons r rs)
  have "REGISTRIES (world_after (run_job env r w)) = REGISTRIES w"
    using assms by (rule run_job_REGISTRIES)
  with Cons show ?case
    by (simp add: Let_def split: option.splits)
qed

lemma work_queues_REGISTRIES:
  assumes "\<And>f as kws w0. REGISTRIES (snd (env f as kws w0)) = REGISTRIES w0"
  shows "REGISTRIES (world_after (work_queues env qns w)) = REGISTRIES w"
proof (induction qns arbitrary: w)
  case Nil
  show ?case by simp
next
  case (Cons qn qns)
  have "REGISTRIES (world_after (work_queue env qn w)) = REGISTRIES w"
    unfolding work_queue_def using assms by (rule process_jobs_REGISTRIES)
  with Cons show ?case
    by (simp add: Let_def split: option.splits)
qed

lemma work_REGISTRIES:
  assumes "\<And>f as kws w0. REGISTRIES (snd (env f as kws w0)) = REGISTRIES w0"
  shows "REGISTRIES (world_after (work env wk burst w)) = REGISTRIES w"
  using work_queues_REGISTRIES [OF assms] by (simp add: work_def)

text \<open>Nor does it stamp \<^verbatim>\<open>started_at\<close>: no job is put to STARTED by \<^verbatim>\<open>work\<close>.\<close>

lemma run_job_started_at:
  assumes "\<And>f as kws w0. started_at (heap (snd (env f as kws w0)) r) = started_at (heap w0 r)"
  shows "started_at (heap (world_after (run_job env r w)) r) = started_at (heap w r)"
proof (cases "func (heap w r)")
  case NotCallable
  then show ?thesis by (simp add: run_job_def job_set_status_world set_status_def)
next
  case (Callable f)
  obtain out w1 where e: "env f (args (heap w r)) (kwargs (heap w r)) w = (out, w1)"
    by (cases "env f (args (heap w r)) (kwargs (heap w r)) w")
  have "started_at (heap w1 r) = started_at (heap w r)"
    using assms [of f "args (heap w r)" "kwargs (heap w r)" w] e by simp
  with Callable e show ?thesis
    by (cases out) (simp_all add: run_job_def job_set_status_world update_job_world set_status_def)
qed

text \<open>The two methods of \<^verbatim>\<open>Worker\<close> that do pair a status with its registry.\<close>

lemma prepare_job_execution_pairs:
  "status (heap (prepare_job_execution r w) r) = STARTED
   \<and> started_at (heap (prepare_job_execution r w) r) = Some (clock w)
   \<and> registry_contains StartedJobRegistry (origin (heap w r)) (job_id (heap w r)) (prepare_job_execution r w)"
  by (simp add: prepare_job_execution_def job_set_status_world set_status_def registry_add_def
      registry_contains_def index_add_def Let_def)

lemma monitor_work_horse_pairs:
  "status (heap (monitor_work_horse r qn w) r) = FAILED
   \<and> registry_contains FailedJobRegistry qn (job_id (heap w r)) (monitor_work_horse r qn w)
   \<and> registry_contains StartedJobRegistry qn (job_id (heap w r)) (monitor_work_horse r qn w) = False"
  by (simp add: monitor_work_horse_def job_set_status_world set_status_def registry_add_def
      registry_remove_def registry_contains_def index_add_def Let_def)

section \<open>Draining three jobs\<close>

lemma world3_jobs: "jobs (QUEUES world3 ''default'') = [0, 1, 2]"
  by (simp add: world3_def eval_defs)

text \<open>
  C1 on the queue of three jobs whose targets return 1, raise and return 3. After
  \<^verbatim>\<open>work(burst=True)\<close> the three jobs have the statuses, results and error text that the
  claim states and the Started Registry of the queue is empty, but the Failed Registry
  is empty too: the id of the second job is not in it.
\<close>

theorem drain_three_jobs_registries:
  "map (\<lambda>r. job_id (heap world3 r)) (jobs (QUEUES world3 ''default'')) = [''j1'', ''j2'', ''j3'']
   \<and> status (heap drained3 0) = FINISHED \<and> result (heap drained3 0) = PInt 1
   \<and> status (heap drained3 1) = FAILED \<and> exc_info (heap drained3 1) = Some ''boom''
   \<and> status (heap drained3 2) = FINISHED \<and> result (heap drained3 2) = PInt 3
   \<and> get_job_ids StartedJobRegistry ''default'' drained3 = []
   \<and> registry_contains FailedJobRegistry ''default'' ''j2'' drained3 = False
   \<and> get_job_ids FailedJobRegistry ''default'' drained3 = []"
  by (simp add: drained3_def world3_def env3_def eval_defs)

text \<open>
  C5 on the same drain, N = 3 and M = 2, with the one worker of the process: the
  statistics give 3 jobs for the queue, and 0 for \<^verbatim>\<open>finished_jobs\<close> and for
  \<^verbatim>\<open>failed_jobs\<close>, not 2 and 1.
\<close>

theorem statistics_after_drain:
  "Worker_count drained3 = 1
   \<and> stat_workers (get_statistics drained3) = 1
   \<and> map st_name (stat_queues (get_statistics drained3)) = [''default'', ''high'', ''low'']
   \<and> st_jobs (hd (stat_queues (get_statistics drained3))) = 3
   \<and> finished_jobs (hd (stat_queues (get_statistics drained3))) = 0
   \<and> failed_jobs (hd (stat_queues (get_statistics drained3))) = 0"
  by (simp add: drained3_def world3_def env3_def get_statistics_def get_queue_statistics_def
      QUEUES_LIST_def QUEUES_MAP_def Worker_count_def enumerate_eq_zip eval_defs)

text \<open>The \<^verbatim>\<open>workers\<close> field of the statistics is the literal 1, whatever \<^verbatim>\<open>_WORKERS\<close> holds.\<close>

lemma statistics_workers_constant:
  "stat_workers (get_statistics w) = 1
   \<and> Worker_count (snd (get_worker ''u5'' ''high'' None drained3)) = 2"
  by (simp add: get_statistics_def Let_def Worker_count_def drained3_def world3_def env3_def eval_defs)

text \<open>
  C2 on a queue with one job whose target looks at the world when it is called: it
  finds its job with status \<^verbatim>\<open>queued\<close> and the Started Registry without the id. After
  the drain the job is FINISHED with no \<^verbatim>\<open>started_at\<close>, and neither the Started nor the
  Finished Registry of the queue ever got the id.
\<close>

theorem drain_never_starts_job:
  "result (heap drained_probe 0) = PList [PStr ''queued'', PBool False]
   \<and> status (heap drained_probe 0) = FINISHED
   \<and> started_at (heap drained_probe 0) = None
   \<and> get_job_ids StartedJobRegistry ''default'' drained_probe = []
   \<and> get_job_ids FinishedJobRegistry ''default'' drained_probe = []"
  by (simp add: drained_probe_def world_probe_def env_probe_def eval_defs)

section \<open>Targets that are not callable, targets that raise\<close>

text \<open>
  C6, as the code has it. A job whose target is not callable is not called, and its
  result and error text stay as they were; it is still put to FINISHED, with
  \<^verbatim>\<open>ended_at\<close> stamped, and the loop goes on with the rest of the snapshot.
\<close>

theorem not_callable_is_finished:
  assumes "func (heap w r) = NotCallable"
  shows "calls (run_job env r w) = []
       \<and> raised (run_job env r w) = None
       \<and> result (heap (world_after (run_job env r w)) r) = result (heap w r)
       \<and> exc_info (heap (world_after (run_job env r w)) r) = exc_info (heap w r)
       \<and> status (heap (world_after (run_job env r w)) r) = FINISHED
       \<and> ended_at (heap (world_after (run_job env r w)) r) = Some (clock w)
       \<and> process_jobs env (r # rs) w = process_jobs env rs (world_after (run_job env r w))"
  using assms
  by (simp add: run_job_not_callable job_set_status_world set_status_def Let_def)

theorem not_callable_is_finished_witness:
  "func (heap world_nc 0) = NotCallable
   \<and> calls (run_job env3 0 world_nc) = []
   \<and> result (heap (world_after (run_job env3 0 world_nc)) 0) = result (heap world_nc 0)
   \<and> exc_info (heap (world_after (run_job env3 0 world_nc)) 0) = exc_info (heap world_nc 0)
   \<and> status (heap (world_after (run_job env3 0 world_nc)) 0) = FINISHED"
proof -
  have h: "func (heap world_nc 0) = NotCallable"
    by (simp add: world_nc_def eval_defs)
  show ?thesis
    using h not_callable_is_finished [OF h, of env3 "[]"] by blast
qed

text \<open>
  C6, as the claim states it, fails: the drain of a queue whose only job has a target
  that is not callable changes the status of the job from QUEUED to FINISHED.
\<close>

theorem not_callable_status_mutated:
  "jobs (QUEUES world_nc ''default'') = [0]
   \<and> func (heap world_nc 0) = NotCallable
   \<and> status (heap world_nc 0) = QUEUED
   \<and> status (heap (world_after (work env3 default_worker True world_nc)) 0) \<noteq> status (heap world_nc 0)"
  by (simp add: world_nc_def env3_def eval_defs)

text \<open>If no target ends with an exception outside \<^verbatim>\<open>Exception\<close>, \<^verbatim>\<open>work\<close> raises nothing.\<close>

lemma run_job_no_raise:
  assumes "\<And>f as kws w0 e. fst (env f as kws w0) \<noteq> RaisedBase e"
  shows "raised (run_job env r w) = None"
proof (cases "func (heap w r)")
  case NotCallable
  then show ?thesis by (simp add: run_job_def)
next
  case (Callable f)
  obtain out w1 where e: "env f (args (heap w r)) (kwargs (heap w r)) w = (out, w1)"
    by (cases "env f (args (heap w r)) (kwargs (heap w r)) w")
  have "\<forall>x. out \<noteq> RaisedBase x"
    using assms [of f "args (heap w r)" "kwargs (heap w r)" w] e by simp
  with Callable e show ?thesis
    by (cases out) (auto simp add: run_job_def)
qed

lemma process_jobs_no_raise:
  assumes "\<And>f as kws w0 e. fst (env f as kws w0) \<noteq> RaisedBase e"
  shows "raised (process_jobs env rs w) = None"
proof (induction rs arbitrary: w)
  case Nil
  show ?case by simp
next
  case (Cons r rs)
  have "raised (run_job env r w) = None"
    using assms by (rule run_job_no_raise)
  with Cons show ?case by (simp add: Let_def)
qed

lemma work_queues_no_raise:
  assumes "\<And>f as kws w0 e. fst (env f as kws w0) \<noteq> RaisedBase e"
  shows "raised (work_queues env qns w) = None"
proof (induction qns arbitrary: w)
  case Nil
  show ?case by simp
next
  case (Cons qn qns)
  have "raised (work_queue env qn w) = None"
    unfolding work_queue_def using assms by (rule process_jobs_no_raise)
  with Cons show ?case by (simp add: Let_def)
qed

lemma work_no_raise:
  assumes "\<And>f as kws w0 e. fst (env f as kws w0) \<noteq> RaisedBase e"
  shows "raised (work env wk burst w) = None"
  using work_queues_no_raise [OF assms] by (simp add: work_def)

text \<open>
  C7, as the code has it. When the target of a job of the snapshot raises an exception
  that \<^verbatim>\<open>except Exception\<close> handles and that has a text, \<^verbatim>\<open>work\<close> stores the text in the
  error field of the job and puts the job to FAILED; nothing is raised to the caller
  for this job, and the loop goes on with every job that follows in the snapshot, from
  the world this job left. A call of \<^verbatim>\<open>work\<close> in which every target returns or raises
  such an exception raises nothing to its caller.
\<close>

theorem raising_target_is_captured:
  assumes "func (heap w r) = Callable f"
      and "env f (args (heap w r)) (kwargs (heap w r)) w = (RaisedException e, w1)"
  shows "raised (run_job env r w) = None
       \<and> exc_info (heap (world_after (run_job env r w)) r) = Some e
       \<and> status (heap (world_after (run_job env r w)) r) = FAILED
       \<and> world_after (process_jobs env (r # rs) w)
           = world_after (process_jobs env rs (world_after (run_job env r w)))
       \<and> calls (process_jobs env (r # rs) w)
           = r # calls (process_jobs env rs (world_after (run_job env r w)))
       \<and> raised (process_jobs env (r # rs) w)
           = raised (process_jobs env rs (world_after (run_job env r w)))
       \<and> ((\<forall>g bs cs w0 x. fst (env g bs cs w0) \<noteq> RaisedBase x) \<longrightarrow> raised (work env wk burst w') = None)"
proof -
  have step: "raised (run_job env r w) = None
       \<and> exc_info (heap (world_after (run_job env r w)) r) = Some e
       \<and> status (heap (world_after (run_job env r w)) r) = FAILED
       \<and> world_after (process_jobs env (r # rs) w)
           = world_after (process_jobs env rs (world_after (run_job env r w)))
       \<and> calls (process_jobs env (r # rs) w)
           = r # calls (process_jobs env rs (world_after (run_job env r w)))
       \<and> raised (process_jobs env (r # rs) w)
           = raised (process_jobs env rs (world_after (run_job env r w)))"
    using assms
    by (simp add: run_job_raised job_set_status_world update_job_world set_status_def Let_def)
  have whole: "(\<forall>g bs cs w0 x. fst (env g bs cs w0) \<noteq> RaisedBase x) \<longrightarrow> raised (work env wk burst w') = None"
    by (simp add: work_no_raise)
  from step whole show ?thesis by blast
qed

theorem raising_target_is_captured_witness:
  "func (heap world3 1) = Callable 2
   \<and> env3 2 (args (heap world3 1)) (kwargs (heap world3 1)) world3 = (RaisedException ''boom'', world3)
   \<and> raised (run_job env3 1 world3) = None
   \<and> exc_info (heap (world_after (run_job env3 1 world3)) 1) = Some ''boom''
   \<and> status (heap (world_after (run_job env3 1 world3)) 1) = FAILED
   \<and> calls (process_jobs env3 [1, 2] world3) = 1 # calls (process_jobs env3 [2] (world_after (run_job env3 1 world3)))
   \<and> (\<forall>g bs cs w0 x. fst (env3 g bs cs w0) \<noteq> RaisedBase x)
   \<and> raised (work env3 default_worker True world3) = None"
proof -
  have h3: "\<forall>g bs cs w0 x. fst (env3 g bs cs w0) \<noteq> RaisedBase x"
    by (simp add: env3_def)
  have h1: "func (heap world3 1) = Callable 2"
    by (simp add: world3_def eval_defs)
  have h2: "env3 2 (args (heap world3 1)) (kwargs (heap world3 1)) world3 = (RaisedException ''boom'', world3)"
    by (simp add: env3_def)
  show ?thesis
    using h1 h2 h3
      raising_target_is_captured
        [where w = world3 and r = 1 and f = 2 and env = env3 and e = "''boom''" and ?w1.0 = world3
           and rs = "[2]" and wk = default_worker and burst = True and w' = world3]
    by blast
qed

text \<open>
  C7, as the claim states it, fails: when the target of the second of three jobs raises
  \<^verbatim>\<open>SystemExit\<close>, the exception leaves \<^verbatim>\<open>work\<close>; the job keeps the status QUEUED and has
  no error text, and the third job is neither called nor given a status.
\<close>

theorem raising_target_escapes:
  "func (heap world3 1) = Callable 2
   \<and> fst (env_exit 2 (args (heap world3 1)) (kwargs (heap world3 1)) world3) = RaisedBase ''bye''
   \<and> raised (work env_exit default_worker True world3) = Some ''bye''
   \<and> calls (work env_exit default_worker True world3) = [0, 1]
   \<and> status (heap (world_after (work env_exit default_worker True world3)) 1) = QUEUED
   \<and> exc_info (heap (world_after (work env_exit default_worker True world3)) 1) = None
   \<and> status (heap (world_after (work env_exit default_worker True world3)) 2) = QUEUED
   \<and> result (heap (world_after (work env_exit default_worker True world3)) 2) = PNone"
  by (simp add: world3_def env_exit_def eval_defs)


section \<open>The snapshot of a drain\<close>





text \<open>
  The list \<^verbatim>\<open>queue.jobs\<close> has no job twice when the ordering has no id twice and the
  mapping gives different objects for different ids, as it does when every job was
  enqueued with an id of its own.
\<close>

lemma jobs_distinct:
  assumes "distinct (q_deque q)" and "inj_on (map_of (q_jobs q)) (dom (map_of (q_jobs q)))"
  shows "distinct (jobs q)"
proof -
  let ?m = "map_of (q_jobs q)"
  let ?xs = "filter (\<lambda>i. ?m i \<noteq> None) (q_deque q)"
  have "inj_on (the \<circ> ?m) (set ?xs)"
  proof (rule inj_onI)
    fix x y
    assume x: "x \<in> set ?xs" and y: "y \<in> set ?xs" and eq: "(the \<circ> ?m) x = (the \<circ> ?m) y"
    from x y obtain a b where a: "?m x = Some a" and b: "?m y = Some b"
      by auto
    with eq have "?m x = ?m y" by simp
    moreover from a b have "x \<in> dom ?m" and "y \<in> dom ?m" by auto
    ultimately show "x = y"
      using assms(2) by (auto dest: inj_onD)
  qed
  moreover have "distinct ?xs"
    using assms(1) by simp
  ultimately show ?thesis
    by (simp add: jobs_def List.map_filter_def distinct_map)
qed



section \<open>The order of a queue\<close>

lemma jobs_append:
  "jobs (q\<lparr>q_deque := xs @ ys\<rparr>) = jobs (q\<lparr>q_deque := xs\<rparr>) @ jobs (q\<lparr>q_deque := ys\<rparr>)"
  by (simp add: jobs_def List.map_filter_def)

lemma jobs_entry:
  "jobs (q\<lparr>q_deque := [i]\<rparr>) = (case fetch_job q i of None \<Rightarrow> [] | Some r \<Rightarrow> [r])"
  by (simp add: jobs_def fetch_job_def List.map_filter_def split: option.splits)

lemma map_filter_fresh:
  "a \<notin> set dq \<Longrightarrow> List.map_filter (m(a \<mapsto> r)) (dq @ [a]) = List.map_filter m dq @ [r]"
  by (induction dq) (auto simp add: List.map_filter_def)

lemma jobs_enqueue:
  assumes "job_id_or_uuid jid uuid \<notin> set (q_deque (QUEUES w qn))"
  shows "jobs (QUEUES (snd (enqueue uuid qn f as kws dep jid w)) qn) = jobs (QUEUES w qn) @ [next_ref w]"
  using assms by (simp add: enqueue_QUEUES jobs_def map_of_dict_set map_filter_fresh)

lemma deque_enqueue:
  "q_deque (QUEUES (snd (enqueue uuid qn f as kws dep jid w)) qn)
     = q_deque (QUEUES w qn) @ [job_id_or_uuid jid uuid]"
  by (simp add: enqueue_QUEUES)

lemma enqueue_heap_other:
  "r \<noteq> next_ref w \<Longrightarrow> heap (snd (enqueue uuid qn f as kws dep jid w)) r = heap w r"
  by (simp add: enqueue_job)

text \<open>
  C9. Three jobs A, B, C enqueued one after the other to the same queue, with ids that
  differ from each other and from the ids the ordering already holds (as the ids that
  \<^verbatim>\<open>uuid4\<close> gives do), are returned by \<^verbatim>\<open>jobs\<close> after the jobs it returned before, in the
  order A, B, C. And for any queue, each entry of the ordering gives its job when the
  mapping has the id and nothing when it has not.
\<close>

theorem jobs_fifo:
  assumes ea: "enqueue ua qn fa asa kwa da ja w = (ra, w1)"
      and eb: "enqueue ub qn fb asb kwb db jb w1 = (rb, w2)"
      and ec: "enqueue uc qn fc asc kwc dc jc w2 = (rc, w3)"
      and ids: "distinct [job_id_or_uuid ja ua, job_id_or_uuid jb ub, job_id_or_uuid jc uc]"
      and fresh: "set [job_id_or_uuid ja ua, job_id_or_uuid jb ub, job_id_or_uuid jc uc]
                    \<inter> set (q_deque (QUEUES w qn)) = {}"
  shows "jobs (QUEUES w3 qn) = jobs (QUEUES w qn) @ [ra, rb, rc]
       \<and> map (\<lambda>r. job_id (heap w3 r)) [ra, rb, rc]
           = [job_id_or_uuid ja ua, job_id_or_uuid jb ub, job_id_or_uuid jc uc]
       \<and> jobs (q\<lparr>q_deque := xs @ i # ys\<rparr>)
           = jobs (q\<lparr>q_deque := xs\<rparr>) @ (case fetch_job q i of None \<Rightarrow> [] | Some r \<Rightarrow> [r])
               @ jobs (q\<lparr>q_deque := ys\<rparr>)"
proof -
  have w1: "w1 = snd (enqueue ua qn fa asa kwa da ja w)" and ra: "ra = next_ref w"
    using ea enqueue_ref [of ua qn fa asa kwa da ja w] by simp_all
  have w2: "w2 = snd (enqueue ub qn fb asb kwb db jb w1)" and rb: "rb = next_ref w1"
    using eb enqueue_ref [of ub qn fb asb kwb db jb w1] by simp_all
  have w3: "w3 = snd (enqueue uc qn fc asc kwc dc jc w2)" and rc: "rc = next_ref w2"
    using ec enqueue_ref [of uc qn fc asc kwc dc jc w2] by simp_all
  have n1: "next_ref w1 = Suc (next_ref w)" and n2: "next_ref w2 = Suc (next_ref w1)"
    by (simp_all add: w1 w2 enqueue_world)
  have d1: "q_deque (QUEUES w1 qn) = q_deque (QUEUES w qn) @ [job_id_or_uuid ja ua]"
    by (simp add: w1 deque_enqueue)
  have d2: "q_deque (QUEUES w2 qn) = q_deque (QUEUES w1 qn) @ [job_id_or_uuid jb ub]"
    by (simp add: w2 deque_enqueue)
  have fa: "job_id_or_uuid ja ua \<notin> set (q_deque (QUEUES w qn))"
    using fresh by simp
  have fb: "job_id_or_uuid jb ub \<notin> set (q_deque (QUEUES w1 qn))"
    using fresh ids by (auto simp add: d1)
  have fc: "job_id_or_uuid jc uc \<notin> set (q_deque (QUEUES w2 qn))"
    using fresh ids by (auto simp add: d1 d2)
  have j1: "jobs (QUEUES w1 qn) = jobs (QUEUES w qn) @ [ra]"
    unfolding w1 ra using fa by (rule jobs_enqueue)
  have j2: "jobs (QUEUES w2 qn) = jobs (QUEUES w1 qn) @ [rb]"
    unfolding w2 rb using fb by (rule jobs_enqueue)
  have j3: "jobs (QUEUES w3 qn) = jobs (QUEUES w2 qn) @ [rc]"
    unfolding w3 rc using fc by (rule jobs_enqueue)
  have order: "jobs (QUEUES w3 qn) = jobs (QUEUES w qn) @ [ra, rb, rc]"
    by (simp add: j1 j2 j3)
  have ia: "job_id (heap w1 ra) = job_id_or_uuid ja ua"
    by (simp add: w1 ra enqueue_job_id)
  have ib: "job_id (heap w2 rb) = job_id_or_uuid jb ub"
    by (simp add: w2 rb enqueue_job_id)
  have ic: "job_id (heap w3 rc) = job_id_or_uuid jc uc"
    by (simp add: w3 rc enqueue_job_id)
  have "heap w2 ra = heap w1 ra"
    unfolding w2 by (rule enqueue_heap_other) (simp add: ra n1)
  moreover have "heap w3 ra = heap w2 ra"
    unfolding w3 by (rule enqueue_heap_other) (simp add: ra n1 n2)
  moreover have "heap w3 rb = heap w2 rb"
    unfolding w3 by (rule enqueue_heap_other) (simp add: rb n2)
  ultimately have idents: "map (\<lambda>r. job_id (heap w3 r)) [ra, rb, rc]
      = [job_id_or_uuid ja ua, job_id_or_uuid jb ub, job_id_or_uuid jc uc]"
    using ia ib ic by simp
  have "jobs (q\<lparr>q_deque := xs @ ([i] @ ys)\<rparr>)
          = jobs (q\<lparr>q_deque := xs\<rparr>) @ jobs (q\<lparr>q_deque := [i]\<rparr>) @ jobs (q\<lparr>q_deque := ys\<rparr>)"
    by (simp only: jobs_append)
  then have entry: "jobs (q\<lparr>q_deque := xs @ i # ys\<rparr>)
      = jobs (q\<lparr>q_deque := xs\<rparr>) @ (case fetch_job q i of None \<Rightarrow> [] | Some r \<Rightarrow> [r])
          @ jobs (q\<lparr>q_deque := ys\<rparr>)"
    by (simp add: jobs_entry)
  from order idents entry show ?thesis by blast
qed


theorem jobs_fifo_witness:
  "distinct [job_id_or_uuid (Some ''j1'') ''u1'', job_id_or_uuid (Some ''j2'') ''u2'',
             job_id_or_uuid (Some ''j3'') ''u3'']
   \<and> set [job_id_or_uuid (Some ''j1'') ''u1'', job_id_or_uuid (Some ''j2'') ''u2'',
           job_id_or_uuid (Some ''j3'') ''u3''] \<inter> set (q_deque (QUEUES world_w ''default'')) = {}
   \<and> jobs (QUEUES world3 ''default'') = jobs (QUEUES world_w ''default'') @ [0, 1, 2]
   \<and> map (\<lambda>r. job_id (heap world3 r)) [0, 1, 2] = [''j1'', ''j2'', ''j3'']"
proof -
  define w1 where "w1 = snd (enqueue ''u1'' ''default'' (Callable 1) [] [] None (Some ''j1'') world_w)"
  define w2 where "w2 = snd (enqueue ''u2'' ''default'' (Callable 2) [] [] None (Some ''j2'') w1)"
  define w3 where "w3 = snd (enqueue ''u3'' ''default'' (Callable 3) [] [] None (Some ''j3'') w2)"
  have n0: "next_ref world_w = 0"
    by (simp add: eval_defs)
  have n1: "next_ref w1 = 1"
    by (simp add: w1_def enqueue_world n0)
  have n2: "next_ref w2 = 2"
    by (simp add: w2_def enqueue_world n1)
  have ea: "enqueue ''u1'' ''default'' (Callable 1) [] [] None (Some ''j1'') world_w = (0, w1)"
    using enqueue_ref [of "''u1''" "''default''" "Callable 1" "[]" "[]" None "Some ''j1''" world_w]
    by (simp add: w1_def n0 prod_eq_iff)
  have eb: "enqueue ''u2'' ''default'' (Callable 2) [] [] None (Some ''j2'') w1 = (1, w2)"
    using enqueue_ref [of "''u2''" "''default''" "Callable 2" "[]" "[]" None "Some ''j2''" w1]
    by (simp add: w2_def n1 prod_eq_iff)
  have ec: "enqueue ''u3'' ''default'' (Callable 3) [] [] None (Some ''j3'') w2 = (2, w3)"
    using enqueue_ref [of "''u3''" "''default''" "Callable 3" "[]" "[]" None "Some ''j3''" w2]
    by (simp add: w3_def n2 prod_eq_iff)
  have w: "world3 = w3"
    by (simp only: world3_def ea eb ec prod.case)
  have ids: "distinct [job_id_or_uuid (Some ''j1'') ''u1'', job_id_or_uuid (Some ''j2'') ''u2'',
                       job_id_or_uuid (Some ''j3'') ''u3'']"
    by (simp add: job_id_or_uuid_def)
  have fresh: "set [job_id_or_uuid (Some ''j1'') ''u1'', job_id_or_uuid (Some ''j2'') ''u2'',
                    job_id_or_uuid (Some ''j3'') ''u3''] \<inter> set (q_deque (QUEUES world_w ''default'')) = {}"
    by (simp add: eval_defs)
  have v: "[job_id_or_uuid (Some ''j1'') ''u1'', job_id_or_uuid (Some ''j2'') ''u2'',
            job_id_or_uuid (Some ''j3'') ''u3''] = [''j1'', ''j2'', ''j3'']"
    by (simp add: job_id_or_uuid_def)
  have "jobs (QUEUES w3 ''default'') = jobs (QUEUES world_w ''default'') @ [0, 1, 2]
        \<and> map (\<lambda>r. job_id (heap w3 r)) [0, 1, 2] = [''j1'', ''j2'', ''j3'']"
    using jobs_fifo [OF ea eb ec ids fresh] v by simp
  with ids fresh w show ?thesis by blast
qed

section \<open>What a drain leaves of the queues\<close>








end
